theory Spec2Isabelle
  imports Complex_Main "HOL-Library.Word" "HOL-Library.Sublist"
begin

section \<open>JavaScript strings\<close>

text \<open>
  A JavaScript string is a sequence of 16-bit code units. String literals of the
  source are written \<open>js ''...''\<close>.
\<close>

type_synonym jsstring = "16 word list"

definition js :: "string \<Rightarrow> jsstring" where
  "js s = map (\<lambda>c. of_nat (of_char c)) s"

text \<open>
  The code units matched by \<open>\s\<close> in a regular expression and removed by
  \<open>String.prototype.trim\<close>: ECMAScript's WhiteSpace and LineTerminator.
\<close>

definition isWhiteSpace :: "16 word \<Rightarrow> bool" where
  "isWhiteSpace c =
     (c \<in> {0x9, 0xA, 0xB, 0xC, 0xD, 0x20, 0xA0, 0x1680, 0x2028, 0x2029, 0x202F, 0x205F,
            0x3000, 0xFEFF}
      \<or> (0x2000 \<le> c \<and> c \<le> 0x200A))"

definition trim :: "jsstring \<Rightarrow> jsstring" where
  "trim s = rev (dropWhile isWhiteSpace (rev (dropWhile isWhiteSpace s)))"

text \<open>\<open>hay.indexOf(needle)\<close>: the first index at which \<open>needle\<close> occurs, or \<open>-1\<close>.\<close>

fun indexOfFrom :: "jsstring \<Rightarrow> jsstring \<Rightarrow> nat \<Rightarrow> int" where
  "indexOfFrom needle [] i = (if prefix needle [] then int i else -1)"
| "indexOfFrom needle (c # cs) i =
     (if prefix needle (c # cs) then int i else indexOfFrom needle cs (Suc i))"

definition indexOf :: "jsstring \<Rightarrow> jsstring \<Rightarrow> int" where
  "indexOf hay needle = indexOfFrom needle hay 0"

section \<open>The fence pattern of \<open>convertFigmaToJSX\<close>\<close>

text \<open>
  The image branch applies
  \<^verbatim>\<open>content.match(/```(?:jsx|tsx)?\s*([\s\S]*?)```/)\<close>
  and reads capture group 1. The matcher below follows the backtracking order of the
  pattern: the match is tried at every start index from the left; the optional group
  tries \<open>jsx\<close>, then \<open>tsx\<close>, then nothing; \<open>\s*\<close> takes as many white-space units
  as it can and gives them back one by one; the lazy group grows one unit at a time
  until the closing fence follows. Each function returns the text of group 1.
\<close>

definition fence :: jsstring where
  "fence = js ''```''"

fun lazyAny :: "jsstring \<Rightarrow> jsstring \<Rightarrow> jsstring option" where
  "lazyAny acc [] = (if prefix fence [] then Some acc else None)"
| "lazyAny acc (c # cs) =
     (if prefix fence (c # cs) then Some acc else lazyAny (acc @ [c]) cs)"

fun greedySpaces :: "jsstring \<Rightarrow> jsstring option" where
  "greedySpaces [] = lazyAny [] []"
| "greedySpaces (c # cs) =
     (if isWhiteSpace c
      then (case greedySpaces cs of Some m \<Rightarrow> Some m | None \<Rightarrow> lazyAny [] (c # cs))
      else lazyAny [] (c # cs))"

definition optTag :: "jsstring \<Rightarrow> jsstring option" where
  "optTag r =
     (case (if prefix (js ''jsx'') r then greedySpaces (drop 3 r) else None) of
        Some m \<Rightarrow> Some m
      | None \<Rightarrow>
         (case (if prefix (js ''tsx'') r then greedySpaces (drop 3 r) else None) of
            Some m \<Rightarrow> Some m
          | None \<Rightarrow> greedySpaces r))"

definition matchHere :: "jsstring \<Rightarrow> jsstring option" where
  "matchHere s = (if prefix fence s then optTag (drop 3 s) else None)"

fun codeMatch :: "jsstring \<Rightarrow> jsstring option" where
  "codeMatch [] = matchHere []"
| "codeMatch (c # cs) =
     (case matchHere (c # cs) of Some m \<Rightarrow> Some m | None \<Rightarrow> codeMatch cs)"

text \<open>
  \<^verbatim>\<open>const cleanedCode = codeMatch ? codeMatch[1].trim() : content;\<close>
\<close>

definition cleanedCode :: "jsstring \<Rightarrow> jsstring" where
  "cleanedCode content =
     (case codeMatch content of Some m \<Rightarrow> trim m | None \<Rightarrow> content)"

text \<open>
  The parsing rule in words: the first fence opens the block; an optional \<open>jsx\<close> or
  \<open>tsx\<close> tag and the white space after it are skipped; the block ends at the next
  fence; its trimmed interior is the result. With no opening fence, or no closing
  fence after it, the result is the input itself.
\<close>

fun splitFence :: "jsstring \<Rightarrow> (jsstring \<times> jsstring) option" where
  "splitFence [] = None"
| "splitFence (c # cs) =
     (if prefix fence (c # cs) then Some ([], drop 3 (c # cs))
      else map_option (\<lambda>(b, a). (c # b, a)) (splitFence cs))"

definition skipTag :: "jsstring \<Rightarrow> jsstring" where
  "skipTag r = (if prefix (js ''jsx'') r \<or> prefix (js ''tsx'') r then drop 3 r else r)"

definition extract_rule :: "jsstring \<Rightarrow> jsstring" where
  "extract_rule s =
     (case splitFence s of
        None \<Rightarrow> s
      | Some (before, r) \<Rightarrow>
         (case splitFence (dropWhile isWhiteSpace (skipTag r)) of
            None \<Rightarrow> s
          | Some (body, after) \<Rightarrow> trim body))"

section \<open>JavaScript values, property reads and thrown values\<close>

text \<open>
  The value \<open>response.json()\<close> resolves with: any JSON value. \<open>Undefined\<close> is what a
  read of a missing property gives. A number is kept by its numeric value; the program
  only tests it against zero.
\<close>

datatype jsval =
    Undefined
  | Null
  | JBool bool
  | JNum real
  | JStr jsstring
  | JArr "jsval list"
  | JObj "(jsstring \<times> jsval) list"

text \<open>ToBoolean, as used by \<open>&&\<close>, \<open>||\<close> and \<open>if\<close>.\<close>

fun truthy :: "jsval \<Rightarrow> bool" where
  "truthy Undefined = False"
| "truthy Null = False"
| "truthy (JBool b) = b"
| "truthy (JNum r) = (r \<noteq> 0)"
| "truthy (JStr s) = (s \<noteq> [])"
| "truthy (JArr xs) = True"
| "truthy (JObj kvs) = True"

text \<open>
  What a \<open>catch\<close> block can receive: an instance of \<open>Error\<close> with its message, or
  any other value (the \<open>ProgressEvent\<close> a failed \<open>FileReader\<close> rejects with).
\<close>

datatype thrown = ErrorObject jsstring | OtherThrown

text \<open>\<^verbatim>\<open>error instanceof Error ? error.message : 'Unknown error'\<close>\<close>

fun caughtMessage :: "thrown \<Rightarrow> jsstring" where
  "caughtMessage (ErrorObject m) = m"
| "caughtMessage OtherThrown = js ''Unknown error''"

text \<open>The property names the program reads from parsed JSON.\<close>

datatype prop_name = Choices | Index0 | Message | Content | ErrorField

fun propKey :: "prop_name \<Rightarrow> jsstring" where
  "propKey Choices = js ''choices''"
| "propKey Index0 = js ''0''"
| "propKey Message = js ''message''"
| "propKey Content = js ''content''"
| "propKey ErrorField = js ''error''"

text \<open>
  The TypeErrors the program can raise by itself: a property read on \<open>undefined\<close> or
  \<open>null\<close>, and a call of \<open>content.match\<close> on a value that has no such method. The
  text of their messages belongs to the JavaScript engine.
\<close>

datatype type_error = CannotReadProperty jsval prop_name | NotAFunction jsval

text \<open>
  \<open>v.p\<close> for the properties above. None of them is inherited from a prototype, so
  an object gives its own entry or \<open>undefined\<close>; an array and a string answer only
  to the index; a boolean and a number have none of them.
\<close>

fun getProp :: "(type_error \<Rightarrow> jsstring) \<Rightarrow> jsval \<Rightarrow> prop_name \<Rightarrow> thrown + jsval" where
  "getProp tm Undefined p = Inl (ErrorObject (tm (CannotReadProperty Undefined p)))"
| "getProp tm Null p = Inl (ErrorObject (tm (CannotReadProperty Null p)))"
| "getProp tm (JObj kvs) p =
     Inr (case map_of kvs (propKey p) of Some v \<Rightarrow> v | None \<Rightarrow> Undefined)"
| "getProp tm (JArr xs) p =
     Inr (if p = Index0 then (case xs of [] \<Rightarrow> Undefined | x # rest \<Rightarrow> x) else Undefined)"
| "getProp tm (JStr s) p =
     Inr (if p = Index0 then (case s of [] \<Rightarrow> Undefined | c # rest \<Rightarrow> JStr [c])
          else Undefined)"
| "getProp tm (JBool b) p = Inr Undefined"
| "getProp tm (JNum r) p = Inr Undefined"

text \<open>Sequencing of steps that may throw: the first thrown value ends the block.\<close>

fun andThen :: "thrown + 'a \<Rightarrow> ('a \<Rightarrow> thrown + 'b) \<Rightarrow> thrown + 'b" where
  "andThen (Inl e) f = Inl e"
| "andThen (Inr v) f = f v"

section \<open>The browser and the completion service\<close>

datatype jsfile = File jsstring jsstring "8 word list"

text \<open>
  How a \<open>FileReader\<close> settles after \<open>readAsDataURL\<close>: \<open>onload\<close> with a string
  result, \<open>onload\<close> with a \<open>null\<close> result, or \<open>onerror\<close>.
\<close>

datatype reader_outcome = LoadString jsstring | LoadNull | ReaderError

datatype content_part = TextPart jsstring | ImageUrlPart jsstring jsstring

datatype message_content = TextContent jsstring | PartsContent "content_part list"

record message =
  role :: jsstring
  content :: message_content

record completion_body =
  model :: jsstring
  messages :: "message list"
  max_tokens :: nat
  temperature :: real

record fetch_request =
  url :: jsstring
  httpMethod :: jsstring
  headers :: "(jsstring \<times> jsstring) list"
  body :: completion_body

record response =
  status :: nat
  json :: "thrown + jsval"

text \<open>\<open>response.ok\<close>: the status is in the range 200 to 299.\<close>

definition ok :: "response \<Rightarrow> bool" where
  "ok r = (200 \<le> status r \<and> status r \<le> 299)"

datatype fetch_outcome = Rejected thrown | Resolved response

text \<open>
  Everything the component takes from outside: the build-time key (possibly not set),
  the file reader, the network, the identifier the browser puts after \<open>blob:\<close> in the
  n-th object URL it creates, the engine's TypeError messages, and the engine's
  ToString of a value that is not a string (which may throw).
\<close>

record env =
  API_KEY :: "jsstring option"
  readAsDataURL :: "jsfile \<Rightarrow> reader_outcome"
  fetch :: "fetch_request \<Rightarrow> fetch_outcome"
  blobId :: "nat \<Rightarrow> jsstring"
  typeErrorMessage :: "type_error \<Rightarrow> jsstring"
  toStringOther :: "jsval \<Rightarrow> thrown + jsstring"

text \<open>
  The browser's blob URL store: the object URLs created and not revoked, each with
  the file it refers to. \<open>URL.createObjectURL\<close> adds an entry and returns its URL.
\<close>

type_synonym blob_store = "(jsstring \<times> jsfile) list"

definition createObjectURL :: "env \<Rightarrow> jsfile \<Rightarrow> blob_store \<Rightarrow> jsstring \<times> blob_store" where
  "createObjectURL e f store =
     (let u = js ''blob:'' @ blobId e (length store) in (u, store @ [(u, f)]))"

text \<open>\<open>String(v)\<close> as \<open>new Error(v)\<close> applies it.\<close>

fun toString :: "env \<Rightarrow> jsval \<Rightarrow> thrown + jsstring" where
  "toString e (JStr s) = Inr s"
| "toString e v = toStringOther e v"

section \<open>Component state\<close>

text \<open>
  The \<open>useState\<close> cells. The component of \<open>src/src/App.tsx\<close> has the first four;
  the component of \<open>src/unnamed/part_000\<close> has \<open>imagePreview\<close> as well.
  \<open>generatedCode\<close> is declared a string, but \<open>setGeneratedCode\<close> is also called
  with a value read from untyped JSON.
\<close>

record core_state =
  figmaJson :: jsstring
  imageFile :: "jsfile option"
  generatedCode :: jsval
  loading :: bool

record app_state = core_state +
  imagePreview :: "jsstring option"

definition initialState :: app_state where
  "initialState =
     \<lparr>figmaJson = [], imageFile = None, generatedCode = JStr [], loading = False,
      imagePreview = None\<rparr>"

record page =
  app :: app_state
  blobStore :: blob_store

definition initialPage :: page where
  "initialPage = \<lparr>app = initialState, blobStore = []\<rparr>"

section \<open>Input handlers of \<open>src/unnamed/part_000\<close>\<close>

text \<open>
  \<open>handleFileChange\<close>: \<open>e.target.files\<close> is \<open>null\<close> or a list of files; the first
  file, when there is one, becomes the image, a preview URL is created for it and the
  text is cleared.
\<close>

definition handleFileChange :: "env \<Rightarrow> jsfile list option \<Rightarrow> page \<Rightarrow> page" where
  "handleFileChange e files p =
     (case files of
        None \<Rightarrow> p
      | Some [] \<Rightarrow> p
      | Some (f # rest) \<Rightarrow>
         (let (imageUrl, store) = createObjectURL e f (blobStore p)
          in p\<lparr>app := (app p)\<lparr>imageFile := Some f, imagePreview := Some imageUrl,
                                figmaJson := []\<rparr>,
                blobStore := store\<rparr>))"

text \<open>
  A clipboard item: its \<open>type\<close> and what \<open>getAsFile()\<close> returns. \<open>handlePaste\<close>
  walks the items; the second component of the result is the event's
  \<open>defaultPrevented\<close> flag. The loop stops (\<open>break\<close>) at the first item whose type
  contains \<open>image\<close>. \<open>URL.createObjectURL\<close> does not throw for a \<open>File\<close>, so
  the \<open>catch\<close> block around the three \<open>set\<close> calls is never entered.
\<close>

datatype clipboard_item = ClipboardItem (itemType: jsstring) (getAsFile: "jsfile option")

fun pasteItems :: "env \<Rightarrow> clipboard_item list \<Rightarrow> page \<times> bool \<Rightarrow> page \<times> bool" where
  "pasteItems e [] (p, prevented) = (p, prevented)"
| "pasteItems e (item # rest) (p, prevented) =
     (if indexOf (itemType item) (js ''image'') \<noteq> -1
      then (case getAsFile item of
              Some f \<Rightarrow>
                (let (imageUrl, store) = createObjectURL e f (blobStore p)
                 in (p\<lparr>app := (app p)\<lparr>imageFile := Some f, imagePreview := Some imageUrl,
                                        figmaJson := []\<rparr>,
                        blobStore := store\<rparr>, True))
            | None \<Rightarrow> (p, True))
      else pasteItems e rest (p, prevented))"

definition handlePaste :: "env \<Rightarrow> clipboard_item list option \<Rightarrow> page \<Rightarrow> page \<times> bool" where
  "handlePaste e items p =
     (case items of None \<Rightarrow> (p, False) | Some its \<Rightarrow> pasteItems e its (p, False))"

text \<open>The textarea's \<open>onChange\<close>: \<^verbatim>\<open>setFigmaJson(e.target.value)\<close>.\<close>

definition setFigmaJson :: "jsstring \<Rightarrow> page \<Rightarrow> page" where
  "setFigmaJson v p = p\<lparr>app := (app p)\<lparr>figmaJson := v\<rparr>\<rparr>"

text \<open>
  The \<open>onClick\<close> of the button over the preview:
  \<^verbatim>\<open>setImagePreview(null); setImageFile(null);\<close>
\<close>

definition clearImage :: "page \<Rightarrow> page" where
  "clearImage p = p\<lparr>app := (app p)\<lparr>imagePreview := None, imageFile := None\<rparr>\<rparr>"

text \<open>
  The branch \<open>convertFigmaToJSX\<close> takes: \<open>if (imageFile)\<close>, \<open>else if (figmaJson)\<close>,
  \<open>else\<close>.
\<close>

datatype input_modality = ImageInput jsfile | TextInput jsstring | NoInput

definition activeModality :: "'a core_state_scheme \<Rightarrow> input_modality" where
  "activeModality s =
     (case imageFile s of
        Some f \<Rightarrow> ImageInput f
      | None \<Rightarrow> if figmaJson s \<noteq> [] then TextInput (figmaJson s) else NoInput)"

section \<open>\<open>convertFigmaToJSX\<close> of \<open>src/unnamed/part_000\<close>\<close>

text \<open>\<open>fileToBase64\<close>: resolves with a string result, rejects otherwise.\<close>

definition fileToBase64 :: "env \<Rightarrow> jsfile \<Rightarrow> thrown + jsstring" where
  "fileToBase64 e f =
     (case readAsDataURL e f of
        LoadString r \<Rightarrow> Inr r
      | LoadNull \<Rightarrow> Inl (ErrorObject (js ''Failed to convert file to base64''))
      | ReaderError \<Rightarrow> Inl OtherThrown)"

definition endpoint :: jsstring where
  "endpoint = js ''https://api.openai.com/v1/chat/completions''"

text \<open>\<^verbatim>\<open>`Bearer ${API_KEY}`\<close>: a key that is not set prints as \<open>undefined\<close>.\<close>

definition requestHeaders :: "env \<Rightarrow> (jsstring \<times> jsstring) list" where
  "requestHeaders e =
     [(js ''Content-Type'', js ''application/json''),
      (js ''Authorization'',
       js ''Bearer '' @ (case API_KEY e of Some k \<Rightarrow> k | None \<Rightarrow> js ''undefined''))]"

definition imageRequest :: "env \<Rightarrow> jsstring \<Rightarrow> fetch_request" where
  "imageRequest e base64Image =
     \<lparr>url = endpoint, httpMethod = js ''POST'', headers = requestHeaders e,
      body =
        \<lparr>model = js ''gpt-4o'',
         messages =
           [\<lparr>role = js ''system'',
             content = TextContent (js ''You are an expert UI developer who converts UI designs into React components with Tailwind CSS. You analyze UI screenshots and generate pixel-perfect code.'')\<rparr>,
            \<lparr>role = js ''user'',
             content = PartsContent
               [TextPart (js ''Convert this UI design into React JSX code with Tailwind CSS. Include all text content, styling, and layout exactly as shown. Make it responsive and use semantic HTML.''),
                ImageUrlPart base64Image (js ''high'')]\<rparr>],
         max_tokens = 4000,
         temperature = 0\<rparr>\<rparr>"

definition jsonRequest :: "env \<Rightarrow> jsstring \<Rightarrow> fetch_request" where
  "jsonRequest e text =
     \<lparr>url = endpoint, httpMethod = js ''POST'', headers = requestHeaders e,
      body =
        \<lparr>model = js ''gpt-4'',
         messages =
           [\<lparr>role = js ''user'',
             content = TextContent (js ''Create a React component with Tailwind CSS based on this Figma JSON. Return ONLY the JSX code without any explanation.\<newline>\<newline>Figma JSON:\<newline>'' @ text)\<rparr>],
         max_tokens = 4096,
         temperature = 1 / 10\<rparr>\<rparr>"

text \<open>
  The value of \<^verbatim>\<open>data.choices && data.choices[0].message.content\<close>: the value
  of \<open>data.choices\<close> when that is falsy, the content otherwise; each read may throw.
\<close>

definition choicesContent :: "env \<Rightarrow> jsval \<Rightarrow> thrown + jsval" where
  "choicesContent e data =
     andThen (getProp (typeErrorMessage e) data Choices) (\<lambda>choices.
       if truthy choices
       then andThen (getProp (typeErrorMessage e) choices Index0) (\<lambda>first.
            andThen (getProp (typeErrorMessage e) first Message) (\<lambda>msg.
            getProp (typeErrorMessage e) msg Content))
       else Inr choices)"

definition couldNotGenerate :: jsstring where
  "couldNotGenerate = js ''Error: Could not generate code. Please check your input.''"

text \<open>
  The value of \<^verbatim>\<open>errorData.error?.message\<close>: \<open>undefined\<close> when
  \<open>errorData.error\<close> is \<open>undefined\<close> or \<open>null\<close>.
\<close>

definition errorMessageValue :: "env \<Rightarrow> jsval \<Rightarrow> thrown + jsval" where
  "errorMessageValue e errorData =
     andThen (getProp (typeErrorMessage e) errorData ErrorField) (\<lambda>err.
       if err = Undefined \<or> err = Null then Inr Undefined
       else getProp (typeErrorMessage e) err Message)"

text \<open>
  \<^verbatim>\<open>throw new Error(errorData.error?.message || 'API request failed')\<close>: the
  thrown value, or what evaluating the argument throws.
\<close>

definition apiError :: "env \<Rightarrow> jsval \<Rightarrow> thrown" where
  "apiError e errorData =
     (case errorMessageValue e errorData of
        Inl t \<Rightarrow> t
      | Inr v \<Rightarrow>
         (case toString e (if truthy v then v else JStr (js ''API request failed'')) of
            Inl t \<Rightarrow> t
          | Inr text \<Rightarrow> ErrorObject text))"

text \<open>
  The image branch after the response has arrived: what \<open>setGeneratedCode\<close> receives
  inside the \<open>try\<close> block, or the value thrown there.
\<close>

definition imageResult :: "env \<Rightarrow> response \<Rightarrow> thrown + jsval" where
  "imageResult e resp =
     (if \<not> ok resp
      then (case json resp of Inl t \<Rightarrow> Inl t | Inr errorData \<Rightarrow> Inl (apiError e errorData))
      else andThen (json resp) (\<lambda>data.
           andThen (choicesContent e data) (\<lambda>v.
             if truthy v
             then (case v of
                     JStr text \<Rightarrow> Inr (JStr (cleanedCode text))
                   | _ \<Rightarrow> Inl (ErrorObject (typeErrorMessage e (NotAFunction v))))
             else Inr (JStr couldNotGenerate))))"

text \<open>The text branch after the response has arrived; the status is not looked at.\<close>

definition jsonResult :: "env \<Rightarrow> response \<Rightarrow> thrown + jsval" where
  "jsonResult e resp =
     andThen (json resp) (\<lambda>data.
     andThen (choicesContent e data) (\<lambda>v.
       if truthy v then Inr v else Inr (JStr couldNotGenerate)))"

text \<open>\<^verbatim>\<open>setGeneratedCode(`Error: ${...}`)\<close> in the \<open>catch\<close> blocks.\<close>

definition shown :: "thrown + jsval \<Rightarrow> jsval" where
  "shown r = (case r of Inr v \<Rightarrow> v | Inl t \<Rightarrow> JStr (js ''Error: '' @ caughtMessage t))"

definition noInputMessage :: jsstring where
  "noInputMessage = js ''Please provide either Figma JSON or upload a screenshot image.''"

text \<open>
  One run of \<open>convertFigmaToJSX\<close> from the state it was rendered with: the state after
  its last \<open>set\<close> call, and the requests it passed to \<open>fetch\<close>, in order.
\<close>

definition convertFigmaToJSX :: "env \<Rightarrow> app_state \<Rightarrow> app_state \<times> fetch_request list" where
  "convertFigmaToJSX e s =
     (let s1 = s\<lparr>loading := True, generatedCode := JStr []\<rparr> in
      case imageFile s of
        Some f \<Rightarrow>
          (case fileToBase64 e f of
             Inl t \<Rightarrow> (s1\<lparr>generatedCode := shown (Inl t), loading := False\<rparr>, [])
           | Inr base64Image \<Rightarrow>
               (let req = imageRequest e base64Image;
                    r = (case fetch e req of
                           Rejected t \<Rightarrow> Inl t
                         | Resolved resp \<Rightarrow> imageResult e resp)
                in (s1\<lparr>generatedCode := shown r, loading := False\<rparr>, [req])))
      | None \<Rightarrow>
          if figmaJson s \<noteq> []
          then (let req = jsonRequest e (figmaJson s);
                    r = (case fetch e req of
                           Rejected t \<Rightarrow> Inl t
                         | Resolved resp \<Rightarrow> jsonResult e resp)
                in (s1\<lparr>generatedCode := shown r\<rparr>, [req]))
          else (s1\<lparr>generatedCode := JStr noInputMessage, loading := False\<rparr>, []))"

text \<open>
  A run of the image branch in which the file was read as \<open>u\<close> and the service
  answered \<open>resp\<close>, and a run of the text branch in which it answered \<open>resp\<close>.
\<close>

definition imageRun :: "env \<Rightarrow> app_state \<Rightarrow> jsfile \<Rightarrow> jsstring \<Rightarrow> response \<Rightarrow> bool" where
  "imageRun e s f u resp =
     (imageFile s = Some f \<and> readAsDataURL e f = LoadString u \<and>
      fetch e (imageRequest e u) = Resolved resp)"

definition textRun :: "env \<Rightarrow> app_state \<Rightarrow> response \<Rightarrow> bool" where
  "textRun e s resp =
     (imageFile s = None \<and> figmaJson s \<noteq> [] \<and>
      fetch e (jsonRequest e (figmaJson s)) = Resolved resp)"

text \<open>The URLs of the image parts of a message content, in order.\<close>

fun partUrls :: "content_part list \<Rightarrow> jsstring list" where
  "partUrls [] = []"
| "partUrls (TextPart t # ps) = partUrls ps"
| "partUrls (ImageUrlPart u d # ps) = u # partUrls ps"

fun imageUrls :: "message_content \<Rightarrow> jsstring list" where
  "imageUrls (TextContent t) = []"
| "imageUrls (PartsContent ps) = partUrls ps"

section \<open>\<open>convertFigmaToJSX\<close> of \<open>src/src/App.tsx\<close>\<close>

text \<open>
  Here \<open>fileToBase64\<close> resolves only when the reader's result is truthy and has no
  branch for the other case: the promise then never settles, which is \<open>None\<close>.
\<close>

definition fileToBase64_App :: "env \<Rightarrow> jsfile \<Rightarrow> (thrown + jsstring) option" where
  "fileToBase64_App e f =
     (case readAsDataURL e f of
        LoadString r \<Rightarrow> if r \<noteq> [] then Some (Inr r) else None
      | LoadNull \<Rightarrow> None
      | ReaderError \<Rightarrow> Some (Inl OtherThrown))"

definition imagePrompt_App :: "jsstring \<Rightarrow> jsstring" where
  "imagePrompt_App base64Image =
     trim (js ''\<newline>You are an expert converter that transforms an image screenshot of a Figma component into a fully functional React JSX component styled with Tailwind CSS.\<newline>Analyze the design from the image below (provided as a base64 encoded string) and output only the React JSX code. Do not include any explanation.\<newline>\<newline>Image (base64):\<newline>''
           @ base64Image @ js ''\<newline>        '')"

definition jsonPrompt_App :: "jsstring \<Rightarrow> jsstring" where
  "jsonPrompt_App text =
     trim (js ''\<newline>You are an expert converter that transforms Figma design JSON into a fully functional React JSX component styled with Tailwind CSS.\<newline>Generate only the code based on the Figma JSON below. Do not include any additional explanation.\<newline>\<newline>Figma JSON:\<newline>''
           @ text @ js ''\<newline>      '')"

definition request_App :: "env \<Rightarrow> jsstring \<Rightarrow> fetch_request" where
  "request_App e prompt =
     \<lparr>url = endpoint, httpMethod = js ''POST'', headers = requestHeaders e,
      body =
        \<lparr>model = js ''gpt-4'',
         messages = [\<lparr>role = js ''user'', content = TextContent prompt\<rparr>],
         max_tokens = 1500,
         temperature = 0\<rparr>\<rparr>"

text \<open>The common tail: one request, then \<open>setLoading(false)\<close> on every path.\<close>

definition send_App :: "env \<Rightarrow> core_state \<Rightarrow> jsstring \<Rightarrow> core_state \<times> fetch_request list" where
  "send_App e s1 prompt =
     (let req = request_App e prompt;
          r = (case fetch e req of
                 Rejected t \<Rightarrow> Inl t
               | Resolved resp \<Rightarrow> jsonResult e resp)
      in (s1\<lparr>generatedCode := shown r, loading := False\<rparr>, [req]))"

definition convertFigmaToJSX_App ::
    "env \<Rightarrow> core_state \<Rightarrow> (core_state \<times> fetch_request list) option" where
  "convertFigmaToJSX_App e s =
     (let s1 = s\<lparr>loading := True, generatedCode := JStr []\<rparr> in
      case imageFile s of
        Some f \<Rightarrow>
          (case fileToBase64_App e f of
             None \<Rightarrow> None
           | Some (Inl t) \<Rightarrow>
               Some (s1\<lparr>generatedCode :=
                           JStr (js ''Error processing image: '' @ caughtMessage t),
                        loading := False\<rparr>, [])
           | Some (Inr base64Image) \<Rightarrow> Some (send_App e s1 (imagePrompt_App base64Image)))
      | None \<Rightarrow>
          if figmaJson s \<noteq> []
          then Some (send_App e s1 (jsonPrompt_App (figmaJson s)))
          else Some (s1\<lparr>generatedCode := JStr noInputMessage, loading := False\<rparr>, []))"

section \<open>The rendered controls of \<open>src/unnamed/part_000\<close>\<close>

text \<open>
  The component renders, for a truthy \<open>imagePreview\<close>, the preview with its clear
  button, and the textarea (with \<open>onChange\<close> and \<open>onPaste\<close>) otherwise; the file
  input always; the Convert button disabled while \<open>loading\<close>.
\<close>

definition previewShown :: "app_state \<Rightarrow> bool" where
  "previewShown s = (case imagePreview s of None \<Rightarrow> False | Some u \<Rightarrow> u \<noteq> [])"

datatype event =
    FileChange "jsfile list option"
  | ClearClick
  | TextChange jsstring
  | Paste "clipboard_item list option"
  | ConvertClick

fun offered :: "app_state \<Rightarrow> event \<Rightarrow> bool" where
  "offered s (FileChange files) = True"
| "offered s ClearClick = previewShown s"
| "offered s (TextChange v) = (\<not> previewShown s)"
| "offered s (Paste items) = (\<not> previewShown s)"
| "offered s ConvertClick = (\<not> loading s)"

fun handle :: "env \<Rightarrow> event \<Rightarrow> page \<Rightarrow> page" where
  "handle e (FileChange files) p = handleFileChange e files p"
| "handle e ClearClick p = clearImage p"
| "handle e (TextChange v) p = setFigmaJson v p"
| "handle e (Paste items) p = fst (handlePaste e items p)"
| "handle e ConvertClick p = p\<lparr>app := fst (convertFigmaToJSX e (app p))\<rparr>"

text \<open>The pages a user can bring about, each event under its own environment.\<close>

inductive reachable :: "page \<Rightarrow> bool" where
  initial: "reachable initialPage"
| event: "reachable p \<Longrightarrow> offered (app p) ev \<Longrightarrow> reachable (handle e ev p)"

text \<open>
  What holds of the input cells on every page: an image file is set exactly when its
  preview is shown, and then the text is empty.
\<close>

definition inputsExclusive :: "page \<Rightarrow> bool" where
  "inputsExclusive p =
     ((imageFile (app p) = None) = (\<not> previewShown (app p)) \<and>
      (imageFile (app p) = None \<or> figmaJson (app p) = []))"

section \<open>Sample inputs\<close>

definition sampleFile :: jsfile where
  "sampleFile = File (js ''design.png'') (js ''image/png'') [137, 80, 78, 71]"

definition sampleDataUrl :: jsstring where
  "sampleDataUrl = js ''data:image/png;base64,iVBORw==''"

text \<open>
  An environment whose network answers every request with the given outcome, with
  sample texts for the engine's TypeErrors.
\<close>

definition sampleEnv :: "fetch_outcome \<Rightarrow> env" where
  "sampleEnv outcome =
     \<lparr>API_KEY = Some (js ''sk-test''),
      readAsDataURL = (\<lambda>f. LoadString sampleDataUrl),
      fetch = (\<lambda>req. outcome),
      blobId = (\<lambda>n. js ''http://localhost:5173/preview-'' @ replicate (Suc n) 49),
      typeErrorMessage =
        (\<lambda>t. case t of
               CannotReadProperty v Choices \<Rightarrow> js ''data is null''
             | CannotReadProperty v Index0 \<Rightarrow> js ''data.choices is undefined''
             | CannotReadProperty v Message \<Rightarrow> js ''data.choices[0] is undefined''
             | CannotReadProperty v Content \<Rightarrow> js ''data.choices[0].message is undefined''
             | CannotReadProperty v ErrorField \<Rightarrow> js ''errorData is null''
             | NotAFunction v \<Rightarrow> js ''content.match is not a function''),
      toStringOther = (\<lambda>v. Inr (js ''[object Object]''))\<rparr>"

text \<open>A response body with one candidate carrying the given text.\<close>

definition completionBody :: "jsstring \<Rightarrow> jsval" where
  "completionBody text =
     JObj [(js ''choices'', JArr [JObj [(js ''message'', JObj [(js ''content'', JStr text)])]])]"

definition textState :: "jsstring \<Rightarrow> app_state" where
  "textState text = initialState\<lparr>figmaJson := text\<rparr>"

definition imageState :: app_state where
  "imageState =
     initialState\<lparr>imageFile := Some sampleFile,
                  imagePreview := Some (js ''blob:http://localhost:5173/preview-1'')\<rparr>"

text \<open>Whether a fence occurs in a text.\<close>

definition hasFence :: "jsstring \<Rightarrow> bool" where
  "hasFence r = (splitFence r \<noteq> None)"

section \<open>Properties of the fence pattern\<close>

lemma fence_eq: "fence = [96,96,96]" by (simp add: fence_def js_def)

lemma lazyAny_split: "lazyAny acc r = map_option (\<lambda>(b, a). acc @ b) (splitFence r)"
  by (induction r arbitrary: acc) (auto simp: fence_eq option.map_comp comp_def split_def)

lemma prefix_fence_ws: "isWhiteSpace c \<Longrightarrow> \<not> prefix fence (c # cs)"
  by (auto simp: fence_eq isWhiteSpace_def)

lemma splitFence_dropWhile_None:
  "splitFence (dropWhile isWhiteSpace r) = None \<longleftrightarrow> splitFence r = None"
  by (induction r) (auto simp: prefix_fence_ws)

lemma greedySpaces_eq: "greedySpaces r = lazyAny [] (dropWhile isWhiteSpace r)"
proof (induction r)
  case Nil
  show ?case by simp
next
  case (Cons c cs)
  show ?case
  proof (cases "isWhiteSpace c")
    case False
    then show ?thesis by simp
  next
    case True
    show ?thesis
    proof (cases "lazyAny [] (dropWhile isWhiteSpace cs)")
      case (Some m)
      with True Cons show ?thesis by simp
    next
      case None
      then have "splitFence (dropWhile isWhiteSpace cs) = None"
        by (simp add: lazyAny_split)
      then have "splitFence cs = None" by (simp add: splitFence_dropWhile_None)
      then have "lazyAny [] (c # cs) = None"
        using True by (simp add: lazyAny_split prefix_fence_ws)
      with None True Cons show ?thesis by simp
    qed
  qed
qed

lemma jsx_eq: "js ''jsx'' = [106, 115, 120]" by (simp add: js_def)
lemma tsx_eq: "js ''tsx'' = [116, 115, 120]" by (simp add: js_def)

lemma splitFence_skipTag_None: "splitFence (skipTag r) = None \<longleftrightarrow> splitFence r = None"
  by (auto simp: skipTag_def jsx_eq tsx_eq fence_eq prefix_def)

lemma optTag_eq: "optTag r = lazyAny [] (dropWhile isWhiteSpace (skipTag r))"
proof -
  have none: "lazyAny [] (dropWhile isWhiteSpace r) = None"
    if "lazyAny [] (dropWhile isWhiteSpace (skipTag r)) = None"
    using that by (simp add: lazyAny_split splitFence_dropWhile_None splitFence_skipTag_None)
  have r: "dropWhile isWhiteSpace r = dropWhile isWhiteSpace (skipTag r)"
    if "\<not> prefix (js ''jsx'') r" "\<not> prefix (js ''tsx'') r"
    using that by (simp add: skipTag_def)
  show ?thesis
  proof (cases "prefix (js ''jsx'') r \<or> prefix (js ''tsx'') r")
    case False
    then show ?thesis by (simp add: optTag_def greedySpaces_eq skipTag_def)
  next
    case True
    then have s: "skipTag r = drop 3 r" by (simp add: skipTag_def)
    show ?thesis
    proof (cases "lazyAny [] (dropWhile isWhiteSpace (drop 3 r))")
      case None
      with none s have "lazyAny [] (dropWhile isWhiteSpace r) = None" by simp
      with None s show ?thesis by (simp add: optTag_def greedySpaces_eq)
    next
      case (Some m)
      with True s show ?thesis by (auto simp: optTag_def greedySpaces_eq)
    qed
  qed
qed

lemma hasFence_tl: "hasFence cs \<Longrightarrow> hasFence (c # cs)"
  by (auto simp: hasFence_def)

lemma hasFence_drop: "hasFence (drop n r) \<Longrightarrow> hasFence r"
proof (induction n arbitrary: r)
  case 0
  then show ?case by simp
next
  case (Suc n)
  show ?case
  proof (cases r)
    case Nil
    with Suc.prems show ?thesis by simp
  next
    case (Cons c cs)
    with Suc have "hasFence cs" by simp
    with Cons show ?thesis by (simp add: hasFence_tl)
  qed
qed

lemma hasFence_drop_le: "m \<le> n \<Longrightarrow> hasFence (drop n r) \<Longrightarrow> hasFence (drop m r)"
proof -
  assume "m \<le> n" and h: "hasFence (drop n r)"
  then have "drop n r = drop (n - m) (drop m r)" by simp
  with h show ?thesis using hasFence_drop by metis
qed

lemma optTag_None: "optTag r = None \<longleftrightarrow> \<not> hasFence r"
  by (simp add: optTag_eq lazyAny_split splitFence_dropWhile_None splitFence_skipTag_None
      hasFence_def del: not_None_eq)

lemma codeMatch_hasFence: "codeMatch s = Some m \<Longrightarrow> hasFence (drop 3 s)"
proof (induction s)
  case Nil
  then show ?case by (simp add: matchHere_def fence_eq)
next
  case (Cons c cs)
  show ?case
  proof (cases "matchHere (c # cs)")
    case (Some a)
    then have "prefix fence (c # cs)" "optTag (drop 3 (c # cs)) \<noteq> None"
      by (auto simp: matchHere_def split: if_splits)
    then show ?thesis by (simp only: optTag_None simp_thms)
  next
    case None
    with Cons have "hasFence (drop 3 cs)" by simp
    then have "hasFence (drop 2 cs)" by (rule hasFence_drop_le[rotated]) simp
    then show ?thesis by simp
  qed
qed

lemma codeMatch_eq:
  "codeMatch s =
     (case splitFence s of None \<Rightarrow> None
      | Some (b, r) \<Rightarrow> lazyAny [] (dropWhile isWhiteSpace (skipTag r)))"
proof (induction s)
  case Nil
  show ?case by (simp add: matchHere_def fence_eq)
next
  case (Cons c cs)
  show ?case
  proof (cases "prefix fence (c # cs)")
    case True
    show ?thesis
    proof (cases "optTag (drop 3 (c # cs))")
      case (Some m)
      with True show ?thesis by (simp add: matchHere_def optTag_eq)
    next
      case None
      then have nf: "\<not> hasFence (drop 3 (c # cs))" by (simp add: optTag_None)
      have "codeMatch cs = None"
      proof (rule ccontr)
        assume "codeMatch cs \<noteq> None"
        then obtain m where "codeMatch cs = Some m" by auto
        then have "hasFence (drop 3 cs)" by (rule codeMatch_hasFence)
        then have "hasFence (drop 2 cs)" by (rule hasFence_drop_le[rotated]) simp
        with nf show False by simp
      qed
      with True None show ?thesis by (simp add: matchHere_def optTag_eq)
    qed
  next
    case False
    with Cons show ?thesis by (simp add: matchHere_def split: option.splits)
  qed
qed


lemma js_literals:
  "js [] = []"
  "js (c # cs) = of_nat (of_char c) # js cs"
  by (simp_all add: js_def)

text \<open>
  Claim C4 (amended). The extractor is total and follows the parsing rule: when a
  fence and, after it, a second fence occur, the result is the trimmed text between
  them, an optional \<open>jsx\<close> or \<open>tsx\<close> tag and the white space after the opening fence
  skipped; otherwise the result is the input itself, not trimmed.
\<close>

theorem cleanedCode_follows_rule: "cleanedCode s = extract_rule s"
  by (simp add: cleanedCode_def extract_rule_def codeMatch_eq lazyAny_split
      split: option.splits prod.splits)

text \<open>
  Claim C4 as stated fails: on a text with no fence the result keeps the surrounding
  white space.
\<close>

theorem cleanedCode_untrimmed_counterexample:
  "\<not> hasFence (js '' plain text '') \<and>
   cleanedCode (js '' plain text '') = js '' plain text '' \<and>
   trim (js '' plain text '') = js ''plain text'' \<and>
   cleanedCode (js '' plain text '') \<noteq> trim (js '' plain text '')"
  by (simp add: cleanedCode_def codeMatch_eq lazyAny_split hasFence_def js_literals fence_def
      trim_def isWhiteSpace_def)

lemma cleanedCode_examples:
  "cleanedCode (js ''```jsx\<newline>CODE\<newline>```'') = js ''CODE''"
  "cleanedCode (js ''plain text, no fence'') = js ''plain text, no fence''"
  "cleanedCode (js ''Sure: ```html <p/> ``` and ```jsx <b/> ```'') = js ''html <p/>''"
  by (simp_all add: cleanedCode_def codeMatch_eq lazyAny_split js_literals fence_def skipTag_def
      trim_def isWhiteSpace_def)

section \<open>Properties of \<open>convertFigmaToJSX\<close>\<close>

text \<open>
  Claim C2. When there is no image file and the text is empty, \<open>convertFigmaToJSX\<close>
  ends with the message asking for input in \<open>generatedCode\<close>, \<open>loading\<close> cleared,
  and no call of \<open>fetch\<close>; in the component of \<open>src/unnamed/part_000\<close> and in the
  one of \<open>src/src/App.tsx\<close>.
\<close>

theorem empty_input_no_request:
  assumes "imageFile s = None" and "figmaJson s = []"
    and "imageFile c = None" and "figmaJson c = []"
  shows "convertFigmaToJSX e s =
           (s\<lparr>loading := False,
              generatedCode :=
                JStr (js ''Please provide either Figma JSON or upload a screenshot image.'')\<rparr>,
            []) \<and>
         convertFigmaToJSX_App e c =
           Some (c\<lparr>loading := False,
                   generatedCode :=
                     JStr (js ''Please provide either Figma JSON or upload a screenshot image.'')\<rparr>,
                 [])"
  using assms by (simp add: convertFigmaToJSX_def convertFigmaToJSX_App_def noInputMessage_def)

theorem empty_input_no_request_witness:
  "imageFile initialState = None \<and> figmaJson initialState = [] \<and>
   snd (convertFigmaToJSX (sampleEnv (Rejected OtherThrown)) initialState) = [] \<and>
   generatedCode (fst (convertFigmaToJSX (sampleEnv (Rejected OtherThrown)) initialState)) =
     JStr (js ''Please provide either Figma JSON or upload a screenshot image.'') \<and>
   loading (fst (convertFigmaToJSX (sampleEnv (Rejected OtherThrown)) initialState)) = False \<and>
   convertFigmaToJSX_App (sampleEnv (Rejected OtherThrown))
     \<lparr>figmaJson = [], imageFile = None, generatedCode = JStr (js ''old''), loading = False\<rparr> =
     Some (\<lparr>figmaJson = [], imageFile = None,
            generatedCode =
              JStr (js ''Please provide either Figma JSON or upload a screenshot image.''),
            loading = False\<rparr>, [])"
proof -
  have a: "imageFile initialState = None" and b: "figmaJson initialState = []"
    by (simp_all add: initialState_def)
  have c: "imageFile \<lparr>figmaJson = [], imageFile = None, generatedCode = JStr (js ''old''),
             loading = False\<rparr> = None"
    and d: "figmaJson \<lparr>figmaJson = [], imageFile = None, generatedCode = JStr (js ''old''),
             loading = False\<rparr> = []"
    by simp_all
  show ?thesis
    using empty_input_no_request [OF a b c d, of "sampleEnv (Rejected OtherThrown)"] a b
    by simp
qed

text \<open>
  Claim C3 fails on the text branch: \<open>setLoading(false)\<close> is missing there, so a
  conversion from structured text ends with \<open>loading\<close> still set, whatever the
  service answered. Here the service answered with code.
\<close>

theorem text_branch_keeps_loading:
  "fst (convertFigmaToJSX
          (sampleEnv (Resolved \<lparr>status = 200, json = Inr (completionBody (js ''<div/>''))\<rparr>))
          (textState (js ''{}''))) =
     \<lparr>figmaJson = js ''{}'', imageFile = None, generatedCode = JStr (js ''<div/>''),
      loading = True, imagePreview = None\<rparr>"
  by (simp add: convertFigmaToJSX_def textState_def initialState_def sampleEnv_def
      jsonResult_def choicesContent_def completionBody_def shown_def js_literals)

lemma text_branch_loading_general:
  "imageFile s = None \<Longrightarrow> figmaJson s \<noteq> [] \<Longrightarrow> loading (fst (convertFigmaToJSX e s))"
  by (simp add: convertFigmaToJSX_def Let_def)

lemma image_branch_loading_cleared:
  "imageFile s = Some f \<Longrightarrow> \<not> loading (fst (convertFigmaToJSX e s))"
  by (simp add: convertFigmaToJSX_def Let_def split: sum.splits)

lemma App_loading_cleared:
  "convertFigmaToJSX_App e c = Some (c', reqs) \<Longrightarrow> \<not> loading c'"
  by (auto simp: convertFigmaToJSX_App_def send_App_def Let_def
      split: option.splits sum.splits if_splits)

section \<open>Properties of the input handlers\<close>

lemma pasteItems_skip:
  "\<forall>it \<in> set before. indexOf (itemType it) (js ''image'') = -1 \<Longrightarrow>
   pasteItems e (before @ rest) (p, d) = pasteItems e rest (p, d)"
  by (induction before) simp_all

text \<open>
  Claim C10. When the first clipboard item whose type contains \<open>image\<close> gives no
  file, \<open>handlePaste\<close> has called \<open>preventDefault\<close> and leaves the page as it was:
  image file, preview, text and every other cell.
\<close>

theorem paste_image_without_file:
  assumes "\<forall>it \<in> set before. indexOf (itemType it) (js ''image'') = -1"
    and "indexOf (itemType item) (js ''image'') \<noteq> -1"
    and "getAsFile item = None"
  shows "handlePaste e (Some (before @ item # after)) p = (p, True)"
  using assms by (simp add: handlePaste_def pasteItems_skip)

theorem paste_image_without_file_witness:
  "indexOf (js ''text/plain'') (js ''image'') = -1 \<and>
   indexOf (js ''image/png'') (js ''image'') = 0 \<and>
   handlePaste (sampleEnv (Rejected OtherThrown))
     (Some [ClipboardItem (js ''text/plain'') None, ClipboardItem (js ''image/png'') None,
            ClipboardItem (js ''image/jpeg'') (Some sampleFile)])
     \<lparr>app = textState (js ''{}''), blobStore = []\<rparr> =
     (\<lparr>app = textState (js ''{}''), blobStore = []\<rparr>, True)"
proof -
  have a: "\<forall>it \<in> set [ClipboardItem (js ''text/plain'') None].
             indexOf (itemType it) (js ''image'') = -1"
    by (simp add: indexOf_def js_literals)
  have b: "indexOf (itemType (ClipboardItem (js ''image/png'') None)) (js ''image'') \<noteq> -1"
    by (simp add: indexOf_def js_literals)
  have c: "getAsFile (ClipboardItem (js ''image/png'') None) = None" by simp
  have d: "indexOf (js ''text/plain'') (js ''image'') = -1"
    "indexOf (js ''image/png'') (js ''image'') = 0"
    by (simp_all add: indexOf_def js_literals)
  show ?thesis
    using paste_image_without_file [OF a b c,
        of "sampleEnv (Rejected OtherThrown)"
           "[ClipboardItem (js ''image/jpeg'') (Some sampleFile)]"
           "\<lparr>app = textState (js ''{}''), blobStore = []\<rparr>"] d
    by simp
qed

section \<open>Properties of the request and of the result\<close>

lemma imageRun_result:
  "imageRun e s f u resp \<Longrightarrow>
   convertFigmaToJSX e s =
     (s\<lparr>loading := False, generatedCode := shown (imageResult e resp)\<rparr>, [imageRequest e u])"
  by (simp add: imageRun_def convertFigmaToJSX_def fileToBase64_def Let_def)

lemma textRun_result:
  "textRun e s resp \<Longrightarrow>
   convertFigmaToJSX e s =
     (s\<lparr>loading := True, generatedCode := shown (jsonResult e resp)\<rparr>, [jsonRequest e (figmaJson s)])"
  by (simp add: textRun_def convertFigmaToJSX_def Let_def)

lemma image_requests:
  "imageFile s = Some f \<Longrightarrow>
   snd (convertFigmaToJSX e s) =
     (case readAsDataURL e f of LoadString u \<Rightarrow> [imageRequest e u] | _ \<Rightarrow> [])"
  by (simp add: convertFigmaToJSX_def fileToBase64_def Let_def split: reader_outcome.splits)

lemma completionBody_content:
  "choicesContent e (completionBody text) = Inr (JStr text)"
  by (simp add: choicesContent_def completionBody_def js_literals)

text \<open>
  Claim C8. In a conversion with an image file set, the request passed to \<open>fetch\<close>,
  when the file could be read, is the one built for the string \<open>u\<close> the reader gave
  for that file with \<open>readAsDataURL\<close>; every request of such a conversion names the
  model \<open>gpt-4o\<close>, has temperature 0, and carries exactly one image part, in its user
  message, whose URL is that string.
\<close>

theorem image_request_shape:
  assumes "imageFile s = Some f"
  shows "(readAsDataURL e f = LoadString u \<longrightarrow>
            snd (convertFigmaToJSX e s) = [imageRequest e u]) \<and>
         (\<forall>req \<in> set (snd (convertFigmaToJSX e s)).
            \<exists>u. readAsDataURL e f = LoadString u \<and>
                model (body req) = js ''gpt-4o'' \<and>
                temperature (body req) = 0 \<and>
                concat (map (\<lambda>m. imageUrls (content m)) (messages (body req))) = [u] \<and>
                map (\<lambda>m. imageUrls (content m))
                  (filter (\<lambda>m. role m = js ''user'') (messages (body req))) = [[u]])"
proof -
  have shape: "model (body (imageRequest e u)) = js ''gpt-4o'' \<and>
      temperature (body (imageRequest e u)) = 0 \<and>
      concat (map (\<lambda>m. imageUrls (content m)) (messages (body (imageRequest e u)))) = [u] \<and>
      map (\<lambda>m. imageUrls (content m))
        (filter (\<lambda>m. role m = js ''user'') (messages (body (imageRequest e u)))) = [[u]]"
    for u
    by (simp add: imageRequest_def js_literals)
  show ?thesis
    using assms shape by (auto simp: image_requests split: reader_outcome.splits)
qed

theorem image_request_shape_witness:
  "imageFile imageState = Some sampleFile \<and>
   readAsDataURL (sampleEnv (Rejected OtherThrown)) sampleFile = LoadString sampleDataUrl \<and>
   snd (convertFigmaToJSX (sampleEnv (Rejected OtherThrown)) imageState) =
     [imageRequest (sampleEnv (Rejected OtherThrown)) sampleDataUrl] \<and>
   concat (map (\<lambda>m. imageUrls (content m))
     (messages (body (imageRequest (sampleEnv (Rejected OtherThrown)) sampleDataUrl)))) =
     [sampleDataUrl] \<and>
   temperature (body (imageRequest (sampleEnv (Rejected OtherThrown)) sampleDataUrl)) = 0"
proof -
  have a: "imageFile imageState = Some sampleFile" by (simp add: imageState_def initialState_def)
  have b: "readAsDataURL (sampleEnv (Rejected OtherThrown)) sampleFile = LoadString sampleDataUrl"
    by (simp add: sampleEnv_def)
  from image_request_shape [OF a, of "sampleEnv (Rejected OtherThrown)" sampleDataUrl] b
  have c: "snd (convertFigmaToJSX (sampleEnv (Rejected OtherThrown)) imageState) =
      [imageRequest (sampleEnv (Rejected OtherThrown)) sampleDataUrl]"
    and d: "\<forall>req \<in> set (snd (convertFigmaToJSX (sampleEnv (Rejected OtherThrown)) imageState)).
            \<exists>u. readAsDataURL (sampleEnv (Rejected OtherThrown)) sampleFile = LoadString u \<and>
                model (body req) = js ''gpt-4o'' \<and>
                temperature (body req) = 0 \<and>
                concat (map (\<lambda>m. imageUrls (content m)) (messages (body req))) = [u] \<and>
                map (\<lambda>m. imageUrls (content m))
                  (filter (\<lambda>m. role m = js ''user'') (messages (body req))) = [[u]]"
    by blast+
  from d c b have "temperature (body (imageRequest (sampleEnv (Rejected OtherThrown)) sampleDataUrl)) = 0 \<and>
    concat (map (\<lambda>m. imageUrls (content m))
     (messages (body (imageRequest (sampleEnv (Rejected OtherThrown)) sampleDataUrl)))) =
     [sampleDataUrl]"
    by simp
  with a b c show ?thesis by simp
qed

text \<open>
  Claim C5 (amended). When the first candidate of the answer carries a non-empty text,
  the image branch stores \<open>cleanedCode\<close> of that text, and the text branch stores the
  text itself, as the service sent it.
\<close>

theorem completed_code_by_branch:
  assumes "json resp = Inr data"
    and "choicesContent e data = Inr (JStr text)"
    and "text \<noteq> []"
  shows "(imageRun e s f u resp \<and> ok resp \<longrightarrow>
            generatedCode (fst (convertFigmaToJSX e s)) = JStr (cleanedCode text)) \<and>
         (textRun e s resp \<longrightarrow>
            generatedCode (fst (convertFigmaToJSX e s)) = JStr text)"
proof (intro conjI impI)
  assume "imageRun e s f u resp \<and> ok resp"
  then have "convertFigmaToJSX e s =
      (s\<lparr>loading := False, generatedCode := shown (imageResult e resp)\<rparr>, [imageRequest e u])"
    and "ok resp"
    using imageRun_result by blast+
  with assms show "generatedCode (fst (convertFigmaToJSX e s)) = JStr (cleanedCode text)"
    by (simp add: imageResult_def shown_def)
next
  assume "textRun e s resp"
  then have "convertFigmaToJSX e s =
      (s\<lparr>loading := True, generatedCode := shown (jsonResult e resp)\<rparr>,
       [jsonRequest e (figmaJson s)])"
    by (rule textRun_result)
  with assms show "generatedCode (fst (convertFigmaToJSX e s)) = JStr text"
    by (simp add: jsonResult_def shown_def)
qed

theorem completed_code_by_branch_witness:
  "generatedCode (fst (convertFigmaToJSX
      (sampleEnv (Resolved \<lparr>status = 200,
         json = Inr (completionBody (js ''Here you go: ```jsx <div/> ```''))\<rparr>)) imageState)) =
     JStr (js ''<div/>'') \<and>
   generatedCode (fst (convertFigmaToJSX
      (sampleEnv (Resolved \<lparr>status = 200,
         json = Inr (completionBody (js ''Here you go: ```jsx <div/> ```''))\<rparr>))
      (textState (js ''{}'')))) =
     JStr (js ''Here you go: ```jsx <div/> ```'')"
proof -
  let ?text = "js ''Here you go: ```jsx <div/> ```''"
  let ?resp = "\<lparr>status = 200, json = Inr (completionBody ?text)\<rparr>"
  let ?e = "sampleEnv (Resolved ?resp)"
  have a: "json ?resp = Inr (completionBody ?text)" by simp
  have b: "choicesContent ?e (completionBody ?text) = Inr (JStr ?text)"
    by (rule completionBody_content)
  have c: "?text \<noteq> []" by (simp add: js_literals)
  have i: "imageRun ?e imageState sampleFile sampleDataUrl ?resp \<and> ok ?resp"
    by (simp add: imageRun_def imageState_def initialState_def sampleEnv_def ok_def)
  have t: "textRun ?e (textState (js ''{}'')) ?resp"
    by (simp add: textRun_def textState_def initialState_def sampleEnv_def js_literals)
  have x: "cleanedCode ?text = js ''<div/>''"
    by (simp add: cleanedCode_def codeMatch_eq lazyAny_split js_literals fence_def skipTag_def
        trim_def isWhiteSpace_def)
  from completed_code_by_branch [OF a b c, of imageState sampleFile sampleDataUrl] i x
  have 1: "generatedCode (fst (convertFigmaToJSX ?e imageState)) = JStr (js ''<div/>'')"
    by simp
  from completed_code_by_branch [OF a b c, of "textState (js ''{}'')"] t
  have 2: "generatedCode (fst (convertFigmaToJSX ?e (textState (js ''{}'')))) = JStr ?text"
    by simp
  from 1 2 show ?thesis by simp
qed

text \<open>
  Claim C5 as stated fails on the text branch: a fenced answer is stored with its
  fences and the prose around them, although \<open>cleanedCode\<close> of it is the bare code.
\<close>

theorem text_branch_raw_counterexample:
  "generatedCode (fst (convertFigmaToJSX
      (sampleEnv (Resolved \<lparr>status = 200,
         json = Inr (completionBody (js ''Sure: ```jsx <div/> ```''))\<rparr>))
      (textState (js ''{}'')))) = JStr (js ''Sure: ```jsx <div/> ```'') \<and>
   cleanedCode (js ''Sure: ```jsx <div/> ```'') = js ''<div/>'' \<and>
   js ''Sure: ```jsx <div/> ```'' \<noteq> js ''<div/>''"
  by (simp add: convertFigmaToJSX_def textState_def initialState_def sampleEnv_def
      jsonResult_def completionBody_content shown_def
      cleanedCode_def codeMatch_eq lazyAny_split js_literals fence_def skipTag_def
      trim_def isWhiteSpace_def)

text \<open>
  Claim C6 (amended). For an answer that was parsed, in the image branch when its
  status is 2xx and in the text branch for any status: when
  \<^verbatim>\<open>data.choices && data.choices[0].message.content\<close> evaluates, without
  throwing, to a falsy value (no \<open>choices\<close> in a body that is not \<open>null\<close>, or a
  first candidate whose message has no content), the result is the fixed text; when a
  read in it throws (a \<open>null\<close> body, no first candidate, a candidate without
  \<open>message\<close>), the result is \<open>Error: \<close> followed by the message of the TypeError.
\<close>

theorem missing_result_fixed_text:
  assumes "json resp = Inr data"
    and "(imageRun e s f u resp \<and> ok resp) \<or> textRun e s resp"
  shows "(choicesContent e data = Inr v \<and> \<not> truthy v \<longrightarrow>
            generatedCode (fst (convertFigmaToJSX e s)) =
              JStr (js ''Error: Could not generate code. Please check your input.'')) \<and>
         (choicesContent e data = Inl t \<longrightarrow>
            generatedCode (fst (convertFigmaToJSX e s)) = JStr (js ''Error: '' @ caughtMessage t))"
proof -
  from assms(2) show ?thesis
  proof
    assume "imageRun e s f u resp \<and> ok resp"
    then have "convertFigmaToJSX e s =
        (s\<lparr>loading := False, generatedCode := shown (imageResult e resp)\<rparr>,
         [imageRequest e u])"
      and "ok resp"
      using imageRun_result by blast+
    with assms(1) show ?thesis
      by (simp add: imageResult_def shown_def couldNotGenerate_def)
  next
    assume "textRun e s resp"
    then have "convertFigmaToJSX e s =
        (s\<lparr>loading := True, generatedCode := shown (jsonResult e resp)\<rparr>,
         [jsonRequest e (figmaJson s)])"
      by (rule textRun_result)
    with assms(1) show ?thesis
      by (simp add: jsonResult_def shown_def couldNotGenerate_def)
  qed
qed

theorem missing_result_fixed_text_witness:
  "choicesContent (sampleEnv (Resolved \<lparr>status = 200, json = Inr (JObj [(js ''id'', JStr (js ''r1''))])\<rparr>))
     (JObj [(js ''id'', JStr (js ''r1''))]) = Inr Undefined \<and>
   generatedCode (fst (convertFigmaToJSX
      (sampleEnv (Resolved \<lparr>status = 200, json = Inr (JObj [(js ''id'', JStr (js ''r1''))])\<rparr>))
      imageState)) =
     JStr (js ''Error: Could not generate code. Please check your input.'') \<and>
   generatedCode (fst (convertFigmaToJSX
      (sampleEnv (Resolved \<lparr>status = 200, json = Inr (JObj [(js ''id'', JStr (js ''r1''))])\<rparr>))
      (textState (js ''{}'')))) =
     JStr (js ''Error: Could not generate code. Please check your input.'') \<and>
   generatedCode (fst (convertFigmaToJSX
      (sampleEnv (Resolved \<lparr>status = 200, json = Inr (JObj [(js ''choices'', JArr [])])\<rparr>))
      (textState (js ''{}'')))) =
     JStr (js ''Error: data.choices[0] is undefined'')"
proof -
  let ?data = "JObj [(js ''id'', JStr (js ''r1''))]"
  let ?resp = "\<lparr>status = 200, json = Inr ?data\<rparr>"
  let ?e = "sampleEnv (Resolved ?resp)"
  let ?data2 = "JObj [(js ''choices'', JArr [])]"
  let ?resp2 = "\<lparr>status = 200, json = Inr ?data2\<rparr>"
  let ?e2 = "sampleEnv (Resolved ?resp2)"
  let ?t = "ErrorObject (js ''data.choices[0] is undefined'')"
  have a: "json ?resp = Inr ?data" and a2: "json ?resp2 = Inr ?data2" by simp_all
  have b: "choicesContent ?e ?data = Inr Undefined"
    by (simp add: choicesContent_def js_literals)
  have b2: "choicesContent ?e2 ?data2 = Inl ?t"
    by (simp add: choicesContent_def sampleEnv_def js_literals)
  have c: "\<not> truthy Undefined" by simp
  have i: "(imageRun ?e imageState sampleFile sampleDataUrl ?resp \<and> ok ?resp) \<or>
           textRun ?e imageState ?resp"
    by (simp add: imageRun_def imageState_def initialState_def sampleEnv_def ok_def)
  have t: "(imageRun ?e (textState (js ''{}'')) sampleFile sampleDataUrl ?resp \<and> ok ?resp) \<or>
           textRun ?e (textState (js ''{}'')) ?resp"
    by (simp add: textRun_def textState_def initialState_def sampleEnv_def js_literals)
  have t2: "(imageRun ?e2 (textState (js ''{}'')) sampleFile sampleDataUrl ?resp2 \<and> ok ?resp2) \<or>
           textRun ?e2 (textState (js ''{}'')) ?resp2"
    by (simp add: textRun_def textState_def initialState_def sampleEnv_def js_literals)
  from missing_result_fixed_text [OF a i, of Undefined] b c
  have 1: "generatedCode (fst (convertFigmaToJSX ?e imageState)) =
      JStr (js ''Error: Could not generate code. Please check your input.'')"
    by simp
  from missing_result_fixed_text [OF a t, of Undefined] b c
  have 2: "generatedCode (fst (convertFigmaToJSX ?e (textState (js ''{}'')))) =
      JStr (js ''Error: Could not generate code. Please check your input.'')"
    by simp
  from missing_result_fixed_text [OF a2 t2, of _ ?t] b2
  have 3: "generatedCode (fst (convertFigmaToJSX ?e2 (textState (js ''{}'')))) =
      JStr (js ''Error: '' @ caughtMessage ?t)"
    by simp
  from 1 2 3 b show ?thesis by (simp add: js_literals)
qed

text \<open>
  Claim C6 as stated fails for a malformed first candidate: with \<open>choices\<close> present
  and a first candidate that has no \<open>message\<close>, the read of \<open>content\<close> throws, and
  the result is the TypeError's message, not the fixed text.
\<close>

theorem malformed_candidate_counterexample:
  "ok \<lparr>status = 200, json = Inr (JObj [(js ''choices'', JArr [JObj [(js ''index'', JNum 0)]])])\<rparr> \<and>
   generatedCode (fst (convertFigmaToJSX
      (sampleEnv (Resolved \<lparr>status = 200,
         json = Inr (JObj [(js ''choices'', JArr [JObj [(js ''index'', JNum 0)]])])\<rparr>))
      imageState)) = JStr (js ''Error: data.choices[0].message is undefined'') \<and>
   js ''Error: data.choices[0].message is undefined'' \<noteq>
     js ''Error: Could not generate code. Please check your input.''"
  by (simp add: convertFigmaToJSX_def imageState_def initialState_def sampleEnv_def
      fileToBase64_def imageResult_def ok_def choicesContent_def shown_def js_literals)

text \<open>
  Claim C7 (amended). In the image branch, for an answer whose status is not 2xx:
  when the body parses and \<open>errorData.error?.message\<close> is a non-empty string, the
  result is \<open>Error: \<close> followed by that string; when it is falsy (no \<open>error\<close>, or no
  message in it), the result is the fixed text \<open>Error: API request failed\<close>, whatever
  the status; when the body does not parse, the result is \<open>Error: \<close> followed by the
  message of what \<open>response.json()\<close> rejected with.
\<close>

theorem image_branch_service_error:
  assumes "imageRun e s f u resp" and "\<not> ok resp"
  shows "(json resp = Inr data \<and> errorMessageValue e data = Inr (JStr m) \<and> m \<noteq> [] \<longrightarrow>
            generatedCode (fst (convertFigmaToJSX e s)) = JStr (js ''Error: '' @ m)) \<and>
         (json resp = Inr data \<and> errorMessageValue e data = Inr v \<and> \<not> truthy v \<longrightarrow>
            generatedCode (fst (convertFigmaToJSX e s)) = JStr (js ''Error: API request failed'')) \<and>
         (json resp = Inl t \<longrightarrow>
            generatedCode (fst (convertFigmaToJSX e s)) = JStr (js ''Error: '' @ caughtMessage t))"
proof -
  from assms(1) have "convertFigmaToJSX e s =
      (s\<lparr>loading := False, generatedCode := shown (imageResult e resp)\<rparr>, [imageRequest e u])"
    by (rule imageRun_result)
  with assms(2) show ?thesis
    by (simp add: imageResult_def apiError_def shown_def js_literals)
qed

theorem image_branch_service_error_witness:
  "generatedCode (fst (convertFigmaToJSX
      (sampleEnv (Resolved \<lparr>status = 401,
         json = Inr (JObj [(js ''error'', JObj [(js ''message'', JStr (js ''Incorrect API key provided''))])])\<rparr>))
      imageState)) = JStr (js ''Error: Incorrect API key provided'') \<and>
   generatedCode (fst (convertFigmaToJSX
      (sampleEnv (Resolved \<lparr>status = 500, json = Inr (JObj [])\<rparr>)) imageState)) =
     JStr (js ''Error: API request failed'') \<and>
   generatedCode (fst (convertFigmaToJSX
      (sampleEnv (Resolved \<lparr>status = 502,
         json = Inl (ErrorObject (js ''JSON.parse: unexpected character at line 1 column 1 of the JSON data''))\<rparr>))
      imageState)) =
     JStr (js ''Error: JSON.parse: unexpected character at line 1 column 1 of the JSON data'')"
proof -
  let ?m = "js ''Incorrect API key provided''"
  let ?d1 = "JObj [(js ''error'', JObj [(js ''message'', JStr ?m)])]"
  let ?r1 = "\<lparr>status = 401, json = Inr ?d1\<rparr>"
  let ?r2 = "\<lparr>status = 500, json = Inr (JObj [])\<rparr>"
  let ?t = "ErrorObject (js ''JSON.parse: unexpected character at line 1 column 1 of the JSON data'')"
  let ?r3 = "\<lparr>status = 502, json = Inl ?t\<rparr>"
  have run: "imageRun (sampleEnv (Resolved r)) imageState sampleFile sampleDataUrl r" for r
    by (simp add: imageRun_def imageState_def initialState_def sampleEnv_def)
  have n1: "\<not> ok ?r1" and n2: "\<not> ok ?r2" and n3: "\<not> ok ?r3" by (simp_all add: ok_def)
  have m1: "errorMessageValue (sampleEnv (Resolved ?r1)) ?d1 = Inr (JStr ?m)" and "?m \<noteq> []"
    by (simp_all add: errorMessageValue_def js_literals)
  with image_branch_service_error [OF run n1, of ?d1 ?m]
  have 1: "generatedCode (fst (convertFigmaToJSX (sampleEnv (Resolved ?r1)) imageState)) =
      JStr (js ''Error: '' @ ?m)"
    by simp
  have m2: "errorMessageValue (sampleEnv (Resolved ?r2)) (JObj []) = Inr Undefined"
    by (simp add: errorMessageValue_def)
  with image_branch_service_error [OF run n2, of "JObj []" _ Undefined]
  have 2: "generatedCode (fst (convertFigmaToJSX (sampleEnv (Resolved ?r2)) imageState)) =
      JStr (js ''Error: API request failed'')"
    by simp
  from image_branch_service_error [OF run n3, of _ _ _ ?t]
  have 3: "generatedCode (fst (convertFigmaToJSX (sampleEnv (Resolved ?r3)) imageState)) =
      JStr (js ''Error: '' @ caughtMessage ?t)"
    by simp
  from 1 2 3 show ?thesis by (simp add: js_literals)
qed

text \<open>
  Claim C7 as stated fails on the text branch, which never looks at the status: the
  message the service sent with a 401 is dropped for the fixed text.
\<close>

theorem text_branch_status_counterexample:
  "\<not> ok \<lparr>status = 401,
          json = Inr (JObj [(js ''error'', JObj [(js ''message'', JStr (js ''Incorrect API key provided''))])])\<rparr> \<and>
   generatedCode (fst (convertFigmaToJSX
      (sampleEnv (Resolved \<lparr>status = 401,
         json = Inr (JObj [(js ''error'', JObj [(js ''message'', JStr (js ''Incorrect API key provided''))])])\<rparr>))
      (textState (js ''{}'')))) =
     JStr (js ''Error: Could not generate code. Please check your input.'') \<and>
   js ''Error: Could not generate code. Please check your input.'' \<noteq>
     js ''Error: Incorrect API key provided''"
  by (simp add: convertFigmaToJSX_def textState_def initialState_def sampleEnv_def
      jsonResult_def ok_def choicesContent_def couldNotGenerate_def shown_def js_literals)

section \<open>Properties of the input state\<close>

lemma createObjectURL_nonempty: "fst (createObjectURL e f store) \<noteq> []"
  by (simp add: createObjectURL_def Let_def js_literals)

lemma createObjectURL_store:
  "snd (createObjectURL e f store) = store @ [(fst (createObjectURL e f store), f)]"
  by (simp add: createObjectURL_def Let_def)

lemma convert_frame:
  "imageFile (fst (convertFigmaToJSX e s)) = imageFile s \<and>
   imagePreview (fst (convertFigmaToJSX e s)) = imagePreview s \<and>
   figmaJson (fst (convertFigmaToJSX e s)) = figmaJson s"
  by (simp add: convertFigmaToJSX_def Let_def split: option.splits sum.splits)

lemma handleFileChange_exclusive:
  "inputsExclusive p \<Longrightarrow> inputsExclusive (handleFileChange e files p)"
  by (auto simp: handleFileChange_def inputsExclusive_def previewShown_def split_def Let_def
      createObjectURL_nonempty split: option.splits list.splits)

lemma pasteItems_cases:
  "fst (pasteItems e items (p, d)) = p \<or>
   (\<exists>f u. u \<noteq> [] \<and>
      fst (pasteItems e items (p, d)) =
        p\<lparr>app := (app p)\<lparr>imageFile := Some f, imagePreview := Some u, figmaJson := []\<rparr>,
          blobStore := blobStore p @ [(u, f)]\<rparr>)"
proof (induction items)
  case Nil
  show ?case by simp
next
  case (Cons item rest)
  show ?case
  proof (cases "indexOf (itemType item) (js ''image'') \<noteq> -1")
    case False
    with Cons show ?thesis by simp
  next
    case True
    show ?thesis
    proof (cases "getAsFile item")
      case None
      with True show ?thesis by simp
    next
      case (Some f)
      with True have "fst (pasteItems e (item # rest) (p, d)) =
          p\<lparr>app := (app p)\<lparr>imageFile := Some f,
                  imagePreview := Some (fst (createObjectURL e f (blobStore p))),
                  figmaJson := []\<rparr>,
            blobStore := blobStore p @ [(fst (createObjectURL e f (blobStore p)), f)]\<rparr>"
        by (simp add: split_def Let_def createObjectURL_store)
      then show ?thesis using createObjectURL_nonempty by blast
    qed
  qed
qed

lemma pasteItems_exclusive:
  assumes "inputsExclusive p"
  shows "inputsExclusive (fst (pasteItems e items (p, d)))"
proof -
  from pasteItems_cases [of e items p d] show ?thesis
  proof (elim disjE exE conjE)
    assume "fst (pasteItems e items (p, d)) = p"
    with assms show ?thesis by simp
  next
    fix f u
    assume "u \<noteq> []" and "fst (pasteItems e items (p, d)) =
        p\<lparr>app := (app p)\<lparr>imageFile := Some f, imagePreview := Some u, figmaJson := []\<rparr>,
          blobStore := blobStore p @ [(u, f)]\<rparr>"
    then show ?thesis by (simp add: inputsExclusive_def previewShown_def)
  qed
qed

lemma handle_exclusive:
  assumes "inputsExclusive p" and "offered (app p) ev"
  shows "inputsExclusive (handle e ev p)"
proof (cases ev)
  case (FileChange files)
  with assms show ?thesis by (simp add: handleFileChange_exclusive)
next
  case ClearClick
  then show ?thesis by (simp add: clearImage_def inputsExclusive_def previewShown_def)
next
  case (TextChange v)
  with assms show ?thesis by (simp add: setFigmaJson_def inputsExclusive_def previewShown_def)
next
  case (Paste items)
  with assms show ?thesis
    by (cases items) (simp_all add: handlePaste_def pasteItems_exclusive)
next
  case ConvertClick
  with assms show ?thesis
    by (auto simp: inputsExclusive_def previewShown_def convert_frame)
qed

lemma reachable_exclusive: "reachable p \<Longrightarrow> inputsExclusive p"
proof (induction rule: reachable.induct)
  case initial
  show ?case
    by (simp add: inputsExclusive_def initialPage_def initialState_def previewShown_def)
next
  case (event p ev e)
  then show ?case by (simp add: handle_exclusive)
qed

text \<open>
  Claim C1 (amended). Setting an image clears the text, so the image is then the only
  input. Setting the text changes the text and leaves an image file in place. The
  textarea is rendered only while no preview is shown: on every page the user can
  reach, the image file and a non-empty text are never both set, and where a text change
  is offered there is no image file, so that after it the text is the only input.
\<close>

theorem inputs_exclusive_when_reachable:
  assumes "reachable p"
  shows "(imageFile (app p) = None \<or> figmaJson (app p) = []) \<and>
         (offered (app p) (TextChange v) \<longrightarrow>
            imageFile (app p) = None \<and>
            activeModality (app (handle e (TextChange v) p)) =
              (if v = [] then NoInput else TextInput v)) \<and>
         activeModality (app (handleFileChange e (Some (f # fs)) p)) = ImageInput f \<and>
         figmaJson (app (handleFileChange e (Some (f # fs)) p)) = [] \<and>
         imageFile (app (setFigmaJson v p)) = imageFile (app p)"
proof -
  from assms have x: "inputsExclusive p" by (rule reachable_exclusive)
  then have 1: "imageFile (app p) = None \<or> figmaJson (app p) = []"
    unfolding inputsExclusive_def by blast
  have 2: "imageFile (app p) = None \<and>
      activeModality (app (handle e (TextChange v) p)) =
        (if v = [] then NoInput else TextInput v)"
    if "offered (app p) (TextChange v)"
  proof -
    from that x have "imageFile (app p) = None" by (auto simp: inputsExclusive_def)
    then show ?thesis by (simp add: setFigmaJson_def activeModality_def)
  qed
  have 3: "activeModality (app (handleFileChange e (Some (f # fs)) p)) = ImageInput f \<and>
      figmaJson (app (handleFileChange e (Some (f # fs)) p)) = []"
    by (simp add: handleFileChange_def activeModality_def split_def Let_def)
  have 4: "imageFile (app (setFigmaJson v p)) = imageFile (app p)"
    by (simp add: setFigmaJson_def)
  from 1 2 3 4 show ?thesis by blast
qed

theorem inputs_exclusive_when_reachable_witness:
  "reachable (handle (sampleEnv (Rejected OtherThrown)) (TextChange (js ''{}'')) initialPage) \<and>
   offered (app (handle (sampleEnv (Rejected OtherThrown)) (TextChange (js ''{}'')) initialPage))
     (TextChange (js ''x'')) \<and>
   imageFile (app (handle (sampleEnv (Rejected OtherThrown)) (TextChange (js ''{}'')) initialPage)) =
     None \<and>
   activeModality (app (handle (sampleEnv (Rejected OtherThrown)) (TextChange (js ''x''))
     (handle (sampleEnv (Rejected OtherThrown)) (TextChange (js ''{}'')) initialPage))) =
     TextInput (js ''x'') \<and>
   activeModality (app (handleFileChange (sampleEnv (Rejected OtherThrown)) (Some [sampleFile])
     (handle (sampleEnv (Rejected OtherThrown)) (TextChange (js ''{}'')) initialPage))) =
     ImageInput sampleFile"
proof -
  let ?e = "sampleEnv (Rejected OtherThrown)"
  let ?p = "handle ?e (TextChange (js ''{}'')) initialPage"
  have o0: "offered (app initialPage) (TextChange (js ''{}''))"
    by (simp add: initialPage_def initialState_def previewShown_def)
  have r: "reachable ?p"
    by (rule reachable.event [OF reachable.initial o0])
  have o: "offered (app ?p) (TextChange (js ''x''))"
    by (simp add: setFigmaJson_def initialPage_def initialState_def previewShown_def)
  have n: "js ''x'' \<noteq> []" by (simp add: js_literals)
  from inputs_exclusive_when_reachable [OF r, of "js ''x''" ?e sampleFile "[]"] o n r
  show ?thesis by simp
qed

text \<open>
  Claim C1 as stated fails: \<open>setFigmaJson\<close> after \<open>handleFileChange\<close> leaves the
  image file set beside the text, and \<open>convertFigmaToJSX\<close> would take the image
  branch.
\<close>

theorem text_after_image_counterexample:
  "activeModality (app (setFigmaJson (js ''x'')
      (handleFileChange (sampleEnv (Rejected OtherThrown)) (Some [sampleFile]) initialPage))) =
     ImageInput sampleFile \<and>
   figmaJson (app (setFigmaJson (js ''x'')
      (handleFileChange (sampleEnv (Rejected OtherThrown)) (Some [sampleFile]) initialPage))) =
     js ''x'' \<and>
   ImageInput sampleFile \<noteq> TextInput (js ''x'')"
  by (simp add: setFigmaJson_def handleFileChange_def activeModality_def split_def Let_def
      js_literals)

lemma pasteItems_store:
  "prefix (blobStore p) (blobStore (fst (pasteItems e items (p, d))))"
  using pasteItems_cases [of e items p d] by auto

text \<open>
  Claim C9 (amended). No handler revokes an object URL: whatever the event, the blob
  URL store after it begins with the whole store before it. Replacing the image adds a
  URL and overwrites \<open>imagePreview\<close>; the clear button resets \<open>imagePreview\<close> and
  \<open>imageFile\<close> and leaves the store as it is.
\<close>

theorem object_urls_never_revoked:
  "prefix (blobStore p) (blobStore (handle e ev p)) \<and>
   blobStore (handleFileChange e (Some (f # fs)) p) =
     blobStore p @ [(js ''blob:'' @ blobId e (length (blobStore p)), f)] \<and>
   blobStore (clearImage p) = blobStore p \<and>
   imagePreview (app (clearImage p)) = None \<and>
   imageFile (app (clearImage p)) = None"
proof -
  have "prefix (blobStore p) (blobStore (handle e ev p))"
  proof (cases ev)
    case (FileChange files)
    then show ?thesis
      by (auto simp: handleFileChange_def split_def Let_def createObjectURL_store
          split: option.splits list.splits)
  next
    case (Paste items)
    then show ?thesis by (cases items) (simp_all add: handlePaste_def pasteItems_store)
  qed (simp_all add: clearImage_def setFigmaJson_def)
  then show ?thesis
    by (simp add: handleFileChange_def clearImage_def split_def createObjectURL_def Let_def)
qed

text \<open>
  Claim C9 as stated fails: after the clear button, and after a second file has
  replaced the first, the first preview URL is still in the store.
\<close>

theorem preview_not_revoked_counterexample:
  "imagePreview (app (handleFileChange (sampleEnv (Rejected OtherThrown)) (Some [sampleFile])
      initialPage)) = Some (js ''blob:http://localhost:5173/preview-1'') \<and>
   map fst (blobStore (clearImage
      (handleFileChange (sampleEnv (Rejected OtherThrown)) (Some [sampleFile]) initialPage))) =
     [js ''blob:http://localhost:5173/preview-1''] \<and>
   map fst (blobStore (handleFileChange (sampleEnv (Rejected OtherThrown)) (Some [sampleFile])
      (handleFileChange (sampleEnv (Rejected OtherThrown)) (Some [sampleFile]) initialPage))) =
     [js ''blob:http://localhost:5173/preview-1'', js ''blob:http://localhost:5173/preview-11'']"
  by (simp add: handleFileChange_def clearImage_def split_def createObjectURL_def Let_def
      initialPage_def sampleEnv_def js_literals)

end
